theory Spec2Isabelle
  imports Complex_Main "HOL-Library.Product_Lexorder"
begin

section \<open>Exceptions, dates and times\<close>

text \<open>
  The exceptions that can leave the functions of \<^verbatim>\<open>nvidia-mon.py\<close>. \<open>NVMLError\<close> carries
  the error code of the GPU library; \<open>KeyboardInterrupt\<close> is the cancellation signal;
  \<open>OSError\<close> is what \<^verbatim>\<open>subprocess.call\<close> raises when the command cannot be started,
  \<open>IOError\<close> what \<^verbatim>\<open>logging.FileHandler\<close> raises when the log file cannot be opened.
\<close>

datatype exn = ValueError | OverflowError | TypeError | KeyError | OSError | IOError
  | KeyboardInterrupt | NVMLError int

text \<open>
  A \<^verbatim>\<open>datetime.time\<close> value has the fields hour, minute, second and microsecond. Python
  compares two (naive) time values field by field, in this order.
\<close>

record pytime =
  hour :: nat
  minute :: nat
  second :: nat
  microsecond :: nat

definition time_lt :: "pytime \<Rightarrow> pytime \<Rightarrow> bool" where
  "time_lt a b \<longleftrightarrow>
     (hour a, minute a, second a, microsecond a) < (hour b, minute b, second b, microsecond b)"

text \<open>
  \<^verbatim>\<open>time(h, m)\<close>: the constructor raises \<^verbatim>\<open>ValueError\<close> when the hour is not in 0..23
  or the minute is not in 0..59.
\<close>

definition mk_time :: "int \<Rightarrow> int \<Rightarrow> exn + pytime" where
  "mk_time h m =
     (if 0 \<le> h \<and> h < 24 \<and> 0 \<le> m \<and> m < 60
      then Inr \<lparr>hour = nat h, minute = nat m, second = 0, microsecond = 0\<rparr>
      else Inl ValueError)"

text \<open>
  A naive \<^verbatim>\<open>datetime\<close> is the number of microseconds since 0001-01-01 00:00:00, a
  \<^verbatim>\<open>timedelta\<close> a number of microseconds. \<^verbatim>\<open>datetime.max\<close> is the last microsecond of
  the year 9999 (day 3652059), and \<^verbatim>\<open>datetime + timedelta\<close> raises \<^verbatim>\<open>OverflowError\<close>
  when the sum leaves the range. \<^verbatim>\<open>timedelta(seconds=s)\<close> raises \<^verbatim>\<open>OverflowError\<close> when
  the number of days has a magnitude above 999999999.
\<close>

type_synonym datetime = int
type_synonym timedelta = int

definition us_per_day :: int where
  "us_per_day = 86400000000"

definition datetime_max :: datetime where
  "datetime_max = 3652059 * us_per_day - 1"

definition dt_add :: "datetime \<Rightarrow> timedelta \<Rightarrow> exn + datetime" where
  "dt_add t d = (if 0 \<le> t + d \<and> t + d \<le> datetime_max then Inr (t + d) else Inl OverflowError)"

definition timedelta_seconds :: "int \<Rightarrow> exn + timedelta" where
  "timedelta_seconds s =
     (if \<bar>s div 86400\<bar> > 999999999 then Inl OverflowError else Inr (s * 1000000))"

text \<open>\<^verbatim>\<open>datetime.time()\<close>: the time of day of a datetime.\<close>

definition dt_time :: "datetime \<Rightarrow> pytime" where
  "dt_time t =
     (let us = nat (t mod us_per_day)
      in \<lparr>hour = us div 3600000000,
          minute = (us div 60000000) mod 60,
          second = (us div 1000000) mod 60,
          microsecond = us mod 1000000\<rparr>)"

section \<open>Observable effects\<close>

text \<open>
  Every call on the logger, on the GPU library, on \<^verbatim>\<open>subprocess.call\<close>, on \<^verbatim>\<open>sleep\<close> and
  every line written to standard error is recorded as an event, in the order of execution;
  so are the set-up calls of the logger (\<^verbatim>\<open>setLevel\<close>, and the construction of the
  \<^verbatim>\<open>FileHandler\<close> or \<^verbatim>\<open>StreamHandler\<close> that is added to it).
  A log event keeps the level, the message template of the source and the values
  formatted into it (datetimes and timedeltas as their microsecond counts); the rendering
  of the text is not modelled.
\<close>

datatype level = DEBUG | INFO | WARNING

datatype event =
    Log level string "int list"
  | SetLevel level
  | FileHandler string
  | StreamHandler
  | Stderr string string
  | Call "string list"
  | NvmlInit
  | NvmlDeviceGetCount
  | NvmlDeviceGetHandleByIndex int
  | NvmlDeviceGetUtilizationRates
  | NvmlDeviceGetTemperature
  | NvmlDeviceGetFanSpeed
  | NvmlShutdown
  | Sleep

text \<open>
  A computation yields the events it performed and either the exception it raised
  (\<open>Inl\<close>) or its return value (\<open>Inr\<close>).
\<close>

type_synonym 'a result = "event list \<times> (exn + 'a)"

section \<open>The shutdown decision\<close>

text \<open>
  The dictionary \<^verbatim>\<open>shut_args\<close> built by \<^verbatim>\<open>parse_args\<close>: the four captured strings of the
  time fields stay in it next to the converted values.
\<close>

record shut_args =
  start_h :: string
  start_min :: string
  end_h :: string
  end_min :: string
  start_t :: pytime
  end_t :: pytime
  idle_duration :: timedelta
  idle_percent :: int

text \<open>
  \<^verbatim>\<open>do_shutdown\<close> runs \<^verbatim>\<open>systemctl suspend\<close>. The outcome of \<^verbatim>\<open>subprocess.call\<close> (the exit
  code of the command, or the exception raised when it cannot be started) is given by the
  environment.
\<close>

definition do_shutdown :: "exn + int \<Rightarrow> unit result" where
  "do_shutdown call_res =
     ([Call [''systemctl'', ''suspend'']],
      (case call_res of Inl e \<Rightarrow> Inl e | Inr rc \<Rightarrow> Inr ()))"

text \<open>
  The two tests of \<^verbatim>\<open>check_shutdown\<close> that decide that the time of day is outside the
  configured range, as written in the source.
\<close>

definition outside_range1 :: "shut_args \<Rightarrow> pytime \<Rightarrow> bool" where
  "outside_range1 sa now \<longleftrightarrow>
     time_lt (start_t sa) (end_t sa) \<and> \<not> (time_lt (start_t sa) now \<and> time_lt now (end_t sa))"

definition outside_range2 :: "shut_args \<Rightarrow> pytime \<Rightarrow> bool" where
  "outside_range2 sa now \<longleftrightarrow>
     time_lt (end_t sa) (start_t sa) \<and> (time_lt now (start_t sa) \<and> time_lt (end_t sa) now)"

text \<open>
  \<^verbatim>\<open>check_shutdown(shut_args, gpu_usage, planned_shut, log)\<close>. The reading of the clock
  \<^verbatim>\<open>dt.now()\<close> is the argument \<open>now_full\<close>, the outcome of the suspend command is
  \<open>call_res\<close>. The function returns \<^verbatim>\<open>None\<close> on the busy and the outside branches, the
  planned time on the two idle branches, and falls off its end (which returns
  \<^verbatim>\<open>None\<close>) after \<^verbatim>\<open>do_shutdown()\<close>.
\<close>

definition check_shutdown ::
  "shut_args \<Rightarrow> int \<Rightarrow> datetime option \<Rightarrow> datetime \<Rightarrow> exn + int \<Rightarrow> datetime option result"
where
  "check_shutdown sa gpu_usage planned_shut now_full call_res =
     (if gpu_usage > idle_percent sa then
        (Log DEBUG ''no shutdown, gpu busy'' [] #
           (if planned_shut \<noteq> None
            then [Log INFO ''GPU now busy again, shutdown aborted'' []] else []),
         Inr None)
      else
        let now = dt_time now_full in
        if outside_range1 sa now then
          (Log DEBUG ''no shutdown, outside range1'' [] #
             (if planned_shut \<noteq> None
              then [Log INFO ''time now outside range1, shutdown aborted'' []] else []),
           Inr None)
        else if outside_range2 sa now then
          (Log DEBUG ''no shutdown, outside range2'' [] #
             (if planned_shut \<noteq> None
              then [Log INFO ''time now outside range2, shutdown aborted'' []] else []),
           Inr None)
        else
          (case planned_shut of
             None \<Rightarrow>
               ([Log INFO ''GPU now idle, will shutdown in {0} if this stays''
                   [idle_duration sa]],
                (case dt_add now_full (idle_duration sa) of
                   Inl e \<Rightarrow> Inl e
                 | Inr t \<Rightarrow> Inr (Some t)))
           | Some planned \<Rightarrow>
               if now_full < planned then
                 ([Log DEBUG ''no shutdown, {0} left'' [planned - now_full]],
                  Inr (Some planned))
               else
                 (case do_shutdown call_res of
                    (evs, Inl e) \<Rightarrow>
                      (Log WARNING ''been idle long enough, shutting down now'' [] # evs,
                       Inl e)
                  | (evs, Inr u) \<Rightarrow>
                      (Log WARNING ''been idle long enough, shutting down now'' [] # evs,
                       Inr None))))"

text \<open>The number of times the suspend command is run among some events.\<close>

definition shutdown_count :: "event list \<Rightarrow> nat" where
  "shutdown_count evs = count_list evs (Call [''systemctl'', ''suspend''])"

text \<open>
  A time of day is inside the configured window when neither of the two outside tests
  of the source holds.
\<close>

definition inside_window :: "shut_args \<Rightarrow> pytime \<Rightarrow> bool" where
  "inside_window sa now \<longleftrightarrow> \<not> outside_range1 sa now \<and> \<not> outside_range2 sa now"

text \<open>
  The function treats the time of day as outside the window when it takes one of its two
  outside branches, which are the only places that log these two messages.
\<close>

definition treated_outside :: "event list \<Rightarrow> bool" where
  "treated_outside evs \<longleftrightarrow>
     Log DEBUG ''no shutdown, outside range1'' [] \<in> set evs \<or>
     Log DEBUG ''no shutdown, outside range2'' [] \<in> set evs"

section \<open>The \<^verbatim>\<open>--shutdown\<close> argument\<close>

text \<open>
  \<^verbatim>\<open>\d\<close> of a Python 2 byte-string pattern matches the ten ASCII digits. \<^verbatim>\<open>int\<close> is
  only applied to captured digit strings, where it is the decimal value (leading zeros
  allowed).
\<close>

definition is_digit :: "char \<Rightarrow> bool" where
  "is_digit c \<longleftrightarrow> c \<in> set ''0123456789''"

definition py_int :: "string \<Rightarrow> int" where
  "py_int s = foldl (\<lambda>a c. 10 * a + (of_char c - 48)) 0 s"

text \<open>
  The fragment of regular expressions that \<^verbatim>\<open>SHUT_ARGS_PATTERN\<close> uses: a named group
  \<^verbatim>\<open>(?P<name>\d{lo,hi})\<close> (\<open>Digits lo (Some hi) name\<close>; \<^verbatim>\<open>\d{2}\<close> has lo = hi = 2 and
  \<^verbatim>\<open>\d+\<close> is \<open>Digits 1 None\<close>), a literal character, and the anchor \<^verbatim>\<open>$\<close>.
\<close>

datatype rx_item = Digits nat "nat option" string | Lit char | Dollar

definition SHUT_ARGS_PATTERN :: "rx_item list" where
  "SHUT_ARGS_PATTERN =
     [Digits 1 (Some 2) ''start_h'', Lit CHR '':'', Digits 2 (Some 2) ''start_min'',
      Lit CHR ''-'',
      Digits 1 (Some 2) ''end_h'', Lit CHR '':'', Digits 2 (Some 2) ''end_min'',
      Lit CHR '','',
      Digits 1 None ''idle_duration'', Lit CHR '','',
      Digits 1 (Some 2) ''idle_percent'', Dollar]"

text \<open>
  \<^verbatim>\<open>re.match\<close> anchors the pattern at the start of the string and backtracks. A greedy
  repetition first takes as many digits as it may and gives them back one at a time
  while the rest of the pattern fails: \<open>try_counts f lo hi\<close> tries the counts
  hi, hi - 1, ..., lo in this order and returns the first success. \<^verbatim>\<open>$\<close> matches at the
  end of the string and before a newline that ends the string. The result is the
  dictionary of the named groups (\<^verbatim>\<open>groupdict()\<close>), or \<^verbatim>\<open>None\<close>.
\<close>

fun try_counts :: "(nat \<Rightarrow> 'a option) \<Rightarrow> nat \<Rightarrow> nat \<Rightarrow> 'a option" where
  "try_counts f lo 0 = (if lo = 0 then f 0 else None)"
| "try_counts f lo (Suc k) =
     (if Suc k < lo then None
      else case f (Suc k) of Some r \<Rightarrow> Some r | None \<Rightarrow> try_counts f lo k)"

fun re_match :: "rx_item list \<Rightarrow> string \<Rightarrow> (string \<rightharpoonup> string) \<Rightarrow> (string \<rightharpoonup> string) option" where
  "re_match [] s g = Some g"
| "re_match (Lit c # items) s g =
     (case s of [] \<Rightarrow> None | x # xs \<Rightarrow> if x = c then re_match items xs g else None)"
| "re_match (Dollar # items) s g =
     (if s = [] \<or> s = [CHR 0x0A] then re_match items s g else None)"
| "re_match (Digits lo hi name # items) s g =
     try_counts (\<lambda>k. re_match items (drop k s) (g(name \<mapsto> take k s))) lo
       (case hi of None \<Rightarrow> length (takeWhile is_digit s)
        | Some h \<Rightarrow> min h (length (takeWhile is_digit s)))"

text \<open>
  The namespace that \<^verbatim>\<open>ArgumentParser.parse_args\<close> returns; the command line handling of
  \<^verbatim>\<open>argparse\<close> itself is not modelled. \<^verbatim>\<open>parse_args\<close> of the source returns either the
  integer 2 or the pair \<^verbatim>\<open>(args, shut_args)\<close>.
\<close>

record namespace =
  interval :: real
  gpu_index :: int
  verbose :: bool
  shutdown :: string
  log_file :: string

datatype parsed = IntCode int | ArgsPair namespace "shut_args option"

text \<open>The value of a named group; every group of the pattern is set when it matches.\<close>

definition group :: "(string \<rightharpoonup> string) \<Rightarrow> string \<Rightarrow> string" where
  "group g name = (case g name of None \<Rightarrow> [] | Some w \<Rightarrow> w)"

text \<open>
  \<^verbatim>\<open>parse_args\<close>, from the parsed namespace on. An empty \<^verbatim>\<open>--shutdown\<close> string is false and
  disables the feature. The constructors \<^verbatim>\<open>time\<close> and \<^verbatim>\<open>timedelta\<close> can raise.
\<close>

definition parse_args :: "namespace \<Rightarrow> parsed result" where
  "parse_args args =
     (if shutdown args \<noteq> [] then
        (case re_match SHUT_ARGS_PATTERN (shutdown args) Map.empty of
           None \<Rightarrow>
             ([Stderr ''failed to parse shutdown args {0!r}'' (shutdown args)],
              Inr (IntCode 2))
         | Some g \<Rightarrow>
             (case mk_time (py_int (group g ''start_h'')) (py_int (group g ''start_min'')) of
                Inl e \<Rightarrow> ([], Inl e)
              | Inr st \<Rightarrow>
             (case mk_time (py_int (group g ''end_h'')) (py_int (group g ''end_min'')) of
                Inl e \<Rightarrow> ([], Inl e)
              | Inr en \<Rightarrow>
             (case timedelta_seconds (60 * py_int (group g ''idle_duration'')) of
                Inl e \<Rightarrow> ([], Inl e)
              | Inr dur \<Rightarrow>
                  ([], Inr (ArgsPair args (Some
                     \<lparr>start_h = group g ''start_h'', start_min = group g ''start_min'',
                      end_h = group g ''end_h'', end_min = group g ''end_min'',
                      start_t = st, end_t = en, idle_duration = dur,
                      idle_percent = py_int (group g ''idle_percent'')\<rparr>)))))))
      else ([], Inr (ArgsPair args None)))"

text \<open>
  A specification assembled from its six fields, \<^verbatim>\<open>sh:sm-eh:em,d,p\<close>, and the test that
  a repetition \<^verbatim>\<open>{lo,hi}\<close> admits a count.
\<close>

definition spec_string :: "string \<Rightarrow> string \<Rightarrow> string \<Rightarrow> string \<Rightarrow> string \<Rightarrow> string \<Rightarrow> string" where
  "spec_string sh sm eh em d p =
     sh @ '':'' @ sm @ ''-'' @ eh @ '':'' @ em @ '','' @ d @ '','' @ p"

definition fits :: "nat \<Rightarrow> nat option \<Rightarrow> nat \<Rightarrow> bool" where
  "fits lo hi n \<longleftrightarrow> lo \<le> n \<and> (case hi of None \<Rightarrow> True | Some h \<Rightarrow> n \<le> h)"

section \<open>The monitor loop\<close>

text \<open>
  Sequencing of two computations: the events are appended, and an exception of the
  first skips the second.
\<close>

definition bind_res :: "'a result \<Rightarrow> ('a \<Rightarrow> 'b result) \<Rightarrow> 'b result" where
  "bind_res m f =
     (case m of
        (evs, Inl e) \<Rightarrow> (evs, Inl e)
      | (evs, Inr x) \<Rightarrow> (case f x of (evs', r) \<Rightarrow> (evs @ evs', r)))"

text \<open>
  The dictionary \<^verbatim>\<open>data\<close> of \<^verbatim>\<open>get_data\<close>; its key \<^verbatim>\<open>gpu-idx\<close> is only set by \<^verbatim>\<open>main\<close>.
\<close>

record sample =
  gpu :: int
  mem :: int
  temp :: int
  fan :: int
  time :: datetime
  gpu_idx :: "int option"

text \<open>
  What the environment does during one iteration of the loop: the outcomes of the calls
  on the GPU library, the two readings of the clock (in \<^verbatim>\<open>get_data\<close> and in
  \<^verbatim>\<open>check_shutdown\<close>), the outcome of the suspend command if it is run, and whether
  \<^verbatim>\<open>sleep\<close> returns or is interrupted by an exception. A cancellation is a
  \<^verbatim>\<open>KeyboardInterrupt\<close> raised by one of these calls.
\<close>

record tick =
  handle_res :: "exn + nat"
  util_res :: "exn + int \<times> int"
  temp_res :: "exn + int"
  fan_res :: "exn + int"
  data_now :: datetime
  shut_now :: datetime
  suspend_res :: "exn + int"
  sleep_res :: "exn option"

definition get_data :: "nat \<Rightarrow> tick \<Rightarrow> sample result" where
  "get_data handle t =
     bind_res ([NvmlDeviceGetUtilizationRates], util_res t) (\<lambda>util.
     bind_res ([NvmlDeviceGetTemperature], temp_res t) (\<lambda>tp.
     bind_res ([NvmlDeviceGetFanSpeed], fan_res t) (\<lambda>f.
       ([], Inr \<lparr>gpu = fst util, mem = snd util, temp = tp, fan = f, time = data_now t,
                 gpu_idx = None\<rparr>))))"

definition print_data :: "sample \<Rightarrow> datetime option \<Rightarrow> unit result" where
  "print_data data will_shut =
     (case gpu_idx data of
        None \<Rightarrow> ([], Inl KeyError)
      | Some idx \<Rightarrow>
          ([Log INFO
              ''{0[time]:%H:%M:%S}: gpu {0[gpu-idx]} at {0[gpu]:02d}%, mem at {0[mem]:02d}%, temp {0[temp]:02d}C {1}''
              ([time data, idx, gpu data, mem data, temp data] @
               (case will_shut of None \<Rightarrow> [] | Some ws \<Rightarrow> [ws]))],
           Inr ()))"

text \<open>
  The body of \<^verbatim>\<open>while True\<close> in \<^verbatim>\<open>main\<close>; its result is the new value of \<^verbatim>\<open>will_shut\<close>.
\<close>

definition loop_body ::
  "namespace \<Rightarrow> shut_args option \<Rightarrow> datetime option \<Rightarrow> tick \<Rightarrow> datetime option result"
where
  "loop_body args sa will_shut t =
     bind_res ([NvmlDeviceGetHandleByIndex (gpu_index args)], handle_res t) (\<lambda>handle.
     bind_res (get_data handle t) (\<lambda>data0.
     bind_res ([], Inr (data0\<lparr>gpu_idx := Some (gpu_index args)\<rparr>)) (\<lambda>data.
     bind_res (case sa of
                 None \<Rightarrow> ([], Inr will_shut)
               | Some s \<Rightarrow> check_shutdown s (gpu data) will_shut (shut_now t) (suspend_res t))
       (\<lambda>will_shut'.
     bind_res (print_data data will_shut') (\<lambda>u.
     bind_res ([Sleep], (case sleep_res t of Some e \<Rightarrow> Inl e | None \<Rightarrow> Inr ())) (\<lambda>u.
       ([], Inr will_shut')))))))"

text \<open>
  The loop has no exit of its own: it ends only when an iteration raises. It is run
  against the list of the iterations that the environment provides; when the list is
  used up without an exception the loop is still running (\<open>None\<close>).
\<close>

fun monitor_loop ::
  "namespace \<Rightarrow> shut_args option \<Rightarrow> datetime option \<Rightarrow> tick list \<Rightarrow> event list \<times> exn option"
where
  "monitor_loop args sa will_shut [] = ([], None)"
| "monitor_loop args sa will_shut (t # ts) =
     (case loop_body args sa will_shut t of
        (evs, Inl e) \<Rightarrow> (evs, Some e)
      | (evs, Inr will_shut') \<Rightarrow>
          (case monitor_loop args sa will_shut' ts of (evs', r) \<Rightarrow> (evs @ evs', r)))"

text \<open>
  The environment of one run of \<^verbatim>\<open>main\<close>: the outcome of opening the log file (when
  \<^verbatim>\<open>--log-file\<close> is given), the outcomes of \<^verbatim>\<open>nvmlInit\<close>, \<^verbatim>\<open>nvmlDeviceGetCount\<close> and
  \<^verbatim>\<open>nvmlShutdown\<close>, and the iterations of the loop.
\<close>

record env =
  file_handler_res :: "exn option"
  init_res :: "exn option"
  count_res :: "exn + int"
  ticks :: "tick list"
  shutdown_res :: "exn option"

text \<open>
  The statements of \<^verbatim>\<open>main\<close> before the \<^verbatim>\<open>try\<close> statement. The assignment
  \<^verbatim>\<open>args, shut_args = parse_args(args)\<close> raises \<^verbatim>\<open>TypeError\<close> when \<^verbatim>\<open>parse_args\<close> returned
  the integer 2. The logger gets its level and one handler; opening the log file can
  raise.
\<close>

definition startup :: "namespace \<Rightarrow> env \<Rightarrow> (namespace \<times> shut_args option) result" where
  "startup argv ev =
     (case parse_args argv of
        (pevs, Inl e) \<Rightarrow> (pevs, Inl e)
      | (pevs, Inr (IntCode n)) \<Rightarrow> (pevs, Inl TypeError)
      | (pevs, Inr (ArgsPair args sa)) \<Rightarrow>
          (if log_file args \<noteq> [] then
             (case file_handler_res ev of
                Some e \<Rightarrow>
                  (pevs @ [SetLevel (if verbose args then DEBUG else INFO),
                           FileHandler (log_file args)],
                   Inl e)
              | None \<Rightarrow>
                  (pevs @ [SetLevel (if verbose args then DEBUG else INFO),
                           FileHandler (log_file args),
                           Log INFO ''start logging'' [], Log DEBUG ''shut args: {0}'' []],
                   Inr (args, sa)))
           else
             (pevs @ [SetLevel (if verbose args then DEBUG else INFO), StreamHandler,
                      Log INFO ''start logging'' [], Log DEBUG ''shut args: {0}'' []],
              Inr (args, sa))))"

text \<open>The body of the \<^verbatim>\<open>try\<close> statement of \<^verbatim>\<open>main\<close>, and its \<^verbatim>\<open>finally\<close> clause.\<close>

definition try_block :: "namespace \<Rightarrow> shut_args option \<Rightarrow> env \<Rightarrow> event list \<times> exn option" where
  "try_block args sa ev =
     (case init_res ev of
        Some e \<Rightarrow> ([Log DEBUG ''initializing nvml'' [], NvmlInit], Some e)
      | None \<Rightarrow>
          (case count_res ev of
             Inl e \<Rightarrow> ([Log DEBUG ''initializing nvml'' [], NvmlInit, NvmlDeviceGetCount], Some e)
           | Inr n \<Rightarrow>
               (case monitor_loop args sa None (ticks ev) of
                  (evs, r) \<Rightarrow>
                    ([Log DEBUG ''initializing nvml'' [], NvmlInit, NvmlDeviceGetCount,
                      Log DEBUG ''found %i gpus'' [n]] @ evs, r))))"

definition finally_clause :: "event list" where
  "finally_clause = [Log DEBUG ''shutting down nvml'' [], NvmlShutdown]"

text \<open>
  How a run ends: \<^verbatim>\<open>main\<close> returned a status, an exception propagated out of it, the
  process was killed by a signal, or it is still in the loop.
\<close>

datatype outcome = Returned int | Raised exn | Killed | Running

text \<open>
  \<^verbatim>\<open>main\<close>, when no signal arrives. The \<^verbatim>\<open>finally\<close> clause runs when the \<^verbatim>\<open>try\<close> body
  raises; an exception of \<^verbatim>\<open>nvmlShutdown\<close> replaces the one that was propagating. The
  statements after the \<^verbatim>\<open>try\<close> statement (\<^verbatim>\<open>return 0\<close>) cannot be reached, since the loop
  has no \<^verbatim>\<open>break\<close>.
\<close>

definition main :: "namespace \<Rightarrow> env \<Rightarrow> event list \<times> outcome" where
  "main argv ev =
     (case startup argv ev of
        (sevs, Inl e) \<Rightarrow> (sevs, Raised e)
      | (sevs, Inr (args, sa)) \<Rightarrow>
          (case try_block args sa ev of
             (tevs, None) \<Rightarrow> (sevs @ tevs, Running)
           | (tevs, Some e) \<Rightarrow>
               (sevs @ tevs @ finally_clause,
                (case shutdown_res ev of Some e' \<Rightarrow> Raised e' | None \<Rightarrow> Raised e))))"

text \<open>
  \<^verbatim>\<open>sys.exit(main())\<close> ends the process with the returned status, and an exception that
  is not caught ends it with status 1. A process that a signal killed, or that still
  runs, has no exit status.
\<close>

definition exit_status :: "outcome \<Rightarrow> int option" where
  "exit_status r =
     (case r of Returned n \<Rightarrow> Some n | Raised e \<Rightarrow> Some 1 | Killed \<Rightarrow> None | Running \<Rightarrow> None)"

text \<open>
  Signals. The program installs no signal handler, so Python's defaults apply: a
  termination signal (\<open>SIGTERM\<close>) kills the process at once, without unwinding, and an
  interrupt (\<open>SIGINT\<close>, Ctrl-C) raises \<^verbatim>\<open>KeyboardInterrupt\<close> at the point the program has
  reached. A signal is given with the number \<open>n\<close> of events the run has performed when it
  arrives; it arrives while the program is about to perform event \<open>n + 1\<close>, and has no
  effect on the run when the run performs no more than \<open>n\<close> events.

  \<open>finally_start\<close> is the number of events a run without signal performs before it
  enters the \<^verbatim>\<open>finally\<close> clause.
\<close>

datatype signal = SIGTERM | SIGINT


text \<open>
  The run of the script under at most one signal. An interrupt that arrives before the
  \<^verbatim>\<open>try\<close> statement propagates at once; one that arrives in the \<^verbatim>\<open>try\<close> body ends the body
  and runs the \<^verbatim>\<open>finally\<close> clause; one that arrives in the \<^verbatim>\<open>finally\<close> clause ends the
  clause where it is.
\<close>

definition process :: "namespace \<Rightarrow> env \<Rightarrow> (signal \<times> nat) option \<Rightarrow> event list \<times> outcome" where
  "process argv ev sg =
     (case sg of
        None \<Rightarrow> main argv ev
      | Some (SIGTERM, n) \<Rightarrow>
          (if n < length (fst (main argv ev)) then (take n (fst (main argv ev)), Killed)
           else main argv ev)
      | Some (SIGINT, n) \<Rightarrow>
          (case startup argv ev of
             (sevs, sr) \<Rightarrow>
               if n < length sevs then (take n sevs, Raised KeyboardInterrupt)
               else
                 (case sr of
                    Inl e \<Rightarrow> (sevs, Raised e)
                  | Inr (args, sa) \<Rightarrow>
                      (case try_block args sa ev of
                         (tevs, tr) \<Rightarrow>
                           if n - length sevs < length tevs then
                             (sevs @ take (n - length sevs) tevs @ finally_clause,
                              (case shutdown_res ev of
                                 Some e' \<Rightarrow> Raised e'
                               | None \<Rightarrow> Raised KeyboardInterrupt))
                           else
                             (case tr of
                                None \<Rightarrow> (sevs @ tevs, Running)
                              | Some e \<Rightarrow>
                                  if n - length sevs - length tevs < length finally_clause then
                                    (sevs @ tevs @
                                       take (n - length sevs - length tevs) finally_clause,
                                     Raised KeyboardInterrupt)
                                  else main argv ev)))))"

section \<open>Sample configurations and clock readings\<close>

text \<open>
  The dictionary for the default argument \<^verbatim>\<open>1:30-9:00,30,10\<close>, for a window that spans
  midnight (\<^verbatim>\<open>22:00-6:00,30,10\<close>), for a window whose start equals its end
  (\<^verbatim>\<open>1:00-1:00,30,10\<close>) and for the latter with an idle duration of 9999999999 minutes.
\<close>

definition default_shut_args :: shut_args where
  "default_shut_args =
     \<lparr>start_h = ''1'', start_min = ''30'', end_h = ''9'', end_min = ''00'',
      start_t = \<lparr>hour = 1, minute = 30, second = 0, microsecond = 0\<rparr>,
      end_t = \<lparr>hour = 9, minute = 0, second = 0, microsecond = 0\<rparr>,
      idle_duration = 1800000000, idle_percent = 10\<rparr>"

definition night_shut_args :: shut_args where
  "night_shut_args =
     \<lparr>start_h = ''22'', start_min = ''00'', end_h = ''6'', end_min = ''00'',
      start_t = \<lparr>hour = 22, minute = 0, second = 0, microsecond = 0\<rparr>,
      end_t = \<lparr>hour = 6, minute = 0, second = 0, microsecond = 0\<rparr>,
      idle_duration = 1800000000, idle_percent = 10\<rparr>"

definition allday_shut_args :: shut_args where
  "allday_shut_args =
     \<lparr>start_h = ''1'', start_min = ''00'', end_h = ''1'', end_min = ''00'',
      start_t = \<lparr>hour = 1, minute = 0, second = 0, microsecond = 0\<rparr>,
      end_t = \<lparr>hour = 1, minute = 0, second = 0, microsecond = 0\<rparr>,
      idle_duration = 1800000000, idle_percent = 10\<rparr>"

definition far_shut_args :: shut_args where
  "far_shut_args = allday_shut_args \<lparr>idle_duration := 9999999999 * 60000000\<rparr>"

text \<open>The clock reading at hour \<open>h\<close>, minute \<open>m\<close> of a day in November 2026.\<close>

definition at_time :: "int \<Rightarrow> int \<Rightarrow> datetime" where
  "at_time h m = 739924 * us_per_day + (h * 60 + m) * 60000000"

text \<open>
  The namespace of a run without arguments, an iteration in which the handle cannot be
  acquired, iterations of an idle GPU at 02:00, 02:35 and 02:36, and an environment
  whose only iteration is the idle one at 02:00.
\<close>

definition default_args :: namespace where
  "default_args = \<lparr>interval = 1, gpu_index = 0, verbose = False,
     shutdown = ''1:30-9:00,30,10'', log_file = ''''\<rparr>"

definition fault_tick :: tick where
  "fault_tick = \<lparr>handle_res = Inl (NVMLError 2), util_res = Inr (5, 20), temp_res = Inr 40,
     fan_res = Inr 30, data_now = at_time 2 0, shut_now = at_time 2 0,
     suspend_res = Inr 0, sleep_res = None\<rparr>"

definition idle_tick :: tick where
  "idle_tick = fault_tick\<lparr>handle_res := Inr 0\<rparr>"

definition fire_tick :: tick where
  "fire_tick = idle_tick\<lparr>data_now := at_time 2 35, shut_now := at_time 2 35\<rparr>"

definition next_tick :: tick where
  "next_tick = idle_tick\<lparr>data_now := at_time 2 36, shut_now := at_time 2 36\<rparr>"

definition quiet_env :: env where
  "quiet_env = \<lparr>file_handler_res = None, init_res = None, count_res = Inr 1,
     ticks = [idle_tick], shutdown_res = None\<rparr>"

section \<open>Properties of the shutdown decision\<close>

lemma time_lt_irrefl: "\<not> time_lt a a"
  by (simp add: time_lt_def)

lemma time_lt_asym: "time_lt a b \<Longrightarrow> \<not> time_lt b a"
  unfolding time_lt_def by (rule less_not_sym)

lemma dt_time_at_time_numeral:
  "dt_time (at_time 2 35) = \<lparr>hour = 2, minute = 35, second = 0, microsecond = 0\<rparr>"
  "dt_time (at_time 2 20) = \<lparr>hour = 2, minute = 20, second = 0, microsecond = 0\<rparr>"
  "dt_time (at_time 2 0) = \<lparr>hour = 2, minute = 0, second = 0, microsecond = 0\<rparr>"
  "dt_time (at_time 1 30) = \<lparr>hour = 1, minute = 30, second = 0, microsecond = 0\<rparr>"
  "dt_time (at_time 1 0) = \<lparr>hour = 1, minute = 0, second = 0, microsecond = 0\<rparr>"
  "dt_time (at_time 22 0) = \<lparr>hour = 22, minute = 0, second = 0, microsecond = 0\<rparr>"
  "dt_time (at_time 12 0) = \<lparr>hour = 12, minute = 0, second = 0, microsecond = 0\<rparr>"
  "dt_time (at_time 2 36) = \<lparr>hour = 2, minute = 36, second = 0, microsecond = 0\<rparr>"
  by (simp_all add: dt_time_def at_time_def us_per_day_def)

lemma inside_default_0235: "inside_window default_shut_args (dt_time (at_time 2 35))"
  by (simp add: dt_time_at_time_numeral inside_window_def outside_range1_def
      outside_range2_def default_shut_args_def time_lt_def)

lemma inside_default_0220: "inside_window default_shut_args (dt_time (at_time 2 20))"
  by (simp add: dt_time_at_time_numeral inside_window_def outside_range1_def
      outside_range2_def default_shut_args_def time_lt_def)

lemma inside_default_0236: "inside_window default_shut_args (dt_time (at_time 2 36))"
  by (simp add: dt_time_at_time_numeral inside_window_def outside_range1_def
      outside_range2_def default_shut_args_def time_lt_def)

text \<open>
  The run of the default window \<^verbatim>\<open>1:30-9:00,30,10\<close> with usage 5: at 02:00 a shutdown
  is planned for 02:30, at 02:20 it is kept, at 02:35 the suspend command is run.
\<close>

lemma default_window_scenario:
  "snd (check_shutdown default_shut_args 5 None (at_time 2 0) c) = Inr (Some (at_time 2 30))"
  "snd (check_shutdown default_shut_args 5 (Some (at_time 2 30)) (at_time 2 20) c)
     = Inr (Some (at_time 2 30))"
  "fst (check_shutdown default_shut_args 5 (Some (at_time 2 30)) (at_time 2 35) (Inr 0))
     = [Log WARNING ''been idle long enough, shutting down now'' [],
        Call [''systemctl'', ''suspend'']]"
proof -
  have w: "\<not> outside_range1 default_shut_args (dt_time (at_time 2 0))"
    "\<not> outside_range2 default_shut_args (dt_time (at_time 2 0))"
    "\<not> outside_range1 default_shut_args (dt_time (at_time 2 20))"
    "\<not> outside_range2 default_shut_args (dt_time (at_time 2 20))"
    "\<not> outside_range1 default_shut_args (dt_time (at_time 2 35))"
    "\<not> outside_range2 default_shut_args (dt_time (at_time 2 35))"
    by (simp_all add: dt_time_at_time_numeral outside_range1_def outside_range2_def
        default_shut_args_def time_lt_def)
  have a: "dt_add (at_time 2 0) (idle_duration default_shut_args) = Inr (at_time 2 30)"
    by (simp add: dt_add_def default_shut_args_def at_time_def datetime_max_def us_per_day_def)
  have o: "at_time 2 20 < at_time 2 30" "\<not> at_time 2 35 < at_time 2 30"
    by (simp_all add: at_time_def)
  have p: "\<not> idle_percent default_shut_args < 5" by (simp add: default_shut_args_def)
  show "snd (check_shutdown default_shut_args 5 None (at_time 2 0) c)
      = Inr (Some (at_time 2 30))"
    by (simp add: check_shutdown_def w a p)
  show "snd (check_shutdown default_shut_args 5 (Some (at_time 2 30)) (at_time 2 20) c)
      = Inr (Some (at_time 2 30))"
    by (simp add: check_shutdown_def w o p)
  show "fst (check_shutdown default_shut_args 5 (Some (at_time 2 30)) (at_time 2 35) (Inr 0))
      = [Log WARNING ''been idle long enough, shutting down now'' [],
         Call [''systemctl'', ''suspend'']]"
    by (simp add: check_shutdown_def w o p do_shutdown_def)
qed

lemma check_shutdown_fire:
  assumes "planned \<le> now_full" and "gpu_usage \<le> idle_percent sa"
    and "inside_window sa (dt_time now_full)"
  shows "check_shutdown sa gpu_usage (Some planned) now_full (Inr rc) =
           ([Log WARNING ''been idle long enough, shutting down now'' [],
             Call [''systemctl'', ''suspend'']], Inr None)"
  using assms
  by (simp add: check_shutdown_def inside_window_def do_shutdown_def)

lemma check_shutdown_arm:
  assumes "gpu_usage \<le> idle_percent sa" and "inside_window sa (dt_time now_full)"
    and "0 \<le> now_full + idle_duration sa" and "now_full + idle_duration sa \<le> datetime_max"
  shows "check_shutdown sa gpu_usage None now_full call_res =
           ([Log INFO ''GPU now idle, will shutdown in {0} if this stays'' [idle_duration sa]],
            Inr (Some (now_full + idle_duration sa)))"
  using assms
  by (simp add: check_shutdown_def inside_window_def dt_add_def)

text \<open>
  C1. In state Pending(planned) with planned \<le> now, usage at or below the idle threshold
  and the time of day inside the window, one call of \<open>check_shutdown\<close> runs the
  suspend command exactly once.
\<close>

theorem check_shutdown_fires_once:
  assumes "planned \<le> now_full" and "gpu_usage \<le> idle_percent sa"
    and "inside_window sa (dt_time now_full)"
  shows "shutdown_count (fst (check_shutdown sa gpu_usage (Some planned) now_full call_res)) = 1"
  using assms
  by (simp add: check_shutdown_def inside_window_def do_shutdown_def shutdown_count_def
      split: sum.splits)

theorem check_shutdown_fires_once_witness:
  "at_time 2 30 \<le> at_time 2 35 \<and> 5 \<le> idle_percent default_shut_args \<and>
   inside_window default_shut_args (dt_time (at_time 2 35)) \<and>
   shutdown_count (fst (check_shutdown default_shut_args 5 (Some (at_time 2 30))
     (at_time 2 35) (Inr 0))) = 1"
proof -
  have a: "at_time 2 30 \<le> at_time 2 35" by (simp add: at_time_def)
  have b: "5 \<le> idle_percent default_shut_args" by (simp add: default_shut_args_def)
  show ?thesis
    using a b inside_default_0235
      check_shutdown_fires_once [OF a b inside_default_0235, of "Inr 0"] by simp
qed

text \<open>
  C2. The claim that the state returned after the suspend command has run is still
  Pending(planned) fails: with the default window, planned 02:30, now 02:35 and usage 5
  the returned state differs from Pending(02:30).
\<close>

theorem after_fire_counterexample:
  "at_time 2 30 \<le> at_time 2 35 \<and> 5 \<le> idle_percent default_shut_args \<and>
   inside_window default_shut_args (dt_time (at_time 2 35)) \<and>
   snd (check_shutdown default_shut_args 5 (Some (at_time 2 30)) (at_time 2 35) (Inr 0))
     \<noteq> Inr (Some (at_time 2 30))"
  using inside_default_0235
  by (simp add: check_shutdown_def inside_window_def do_shutdown_def at_time_def
      default_shut_args_def)

text \<open>
  C3. When the usage is strictly above the idle threshold, \<open>check_shutdown\<close> returns
  \<^verbatim>\<open>None\<close> (Inactive) and does not run the suspend command, whatever the current state
  and the current time.
\<close>

theorem busy_inactive:
  assumes "gpu_usage > idle_percent sa"
  shows "snd (check_shutdown sa gpu_usage planned_shut now_full call_res) = Inr None \<and>
         shutdown_count (fst (check_shutdown sa gpu_usage planned_shut now_full call_res)) = 0"
  using assms by (simp add: check_shutdown_def shutdown_count_def)

theorem busy_inactive_witness:
  "50 > idle_percent default_shut_args \<and>
   snd (check_shutdown default_shut_args 50 (Some (at_time 2 30)) (at_time 2 0) (Inr 0))
     = Inr None \<and>
   shutdown_count
     (fst (check_shutdown default_shut_args 50 (Some (at_time 2 30)) (at_time 2 0) (Inr 0))) = 0"
proof -
  have a: "50 > idle_percent default_shut_args" by (simp add: default_shut_args_def)
  show ?thesis
    using a busy_inactive [OF a, of "Some (at_time 2 30)" "at_time 2 0" "Inr 0"] by simp
qed

text \<open>
  C4. For a window with start < end and usage at or below the threshold, the time of day
  is treated as outside exactly when not (start < now < end); when it is outside the call
  returns \<^verbatim>\<open>None\<close> and does not run the suspend command; now = start and now = end are
  outside.
\<close>

theorem nonwrapping_outside:
  assumes "time_lt (start_t sa) (end_t sa)" and "gpu_usage \<le> idle_percent sa"
  shows "(treated_outside (fst (check_shutdown sa gpu_usage planned_shut now_full call_res))
            \<longleftrightarrow> \<not> (time_lt (start_t sa) (dt_time now_full) \<and>
                    time_lt (dt_time now_full) (end_t sa))) \<and>
         (treated_outside (fst (check_shutdown sa gpu_usage planned_shut now_full call_res))
            \<longrightarrow> snd (check_shutdown sa gpu_usage planned_shut now_full call_res) = Inr None \<and>
               shutdown_count
                 (fst (check_shutdown sa gpu_usage planned_shut now_full call_res)) = 0) \<and>
         (dt_time now_full = start_t sa \<or> dt_time now_full = end_t sa
            \<longrightarrow> treated_outside
                 (fst (check_shutdown sa gpu_usage planned_shut now_full call_res)))"
  using assms time_lt_asym [of "start_t sa" "end_t sa"] time_lt_irrefl
  by (auto simp add: check_shutdown_def treated_outside_def outside_range1_def
      outside_range2_def shutdown_count_def do_shutdown_def Let_def
      split: option.splits sum.splits)

theorem nonwrapping_outside_witness:
  "time_lt (start_t default_shut_args) (end_t default_shut_args) \<and>
   5 \<le> idle_percent default_shut_args \<and>
   dt_time (at_time 1 30) = start_t default_shut_args \<and>
   treated_outside
     (fst (check_shutdown default_shut_args 5 (Some (at_time 2 30)) (at_time 1 30) (Inr 0))) \<and>
   snd (check_shutdown default_shut_args 5 (Some (at_time 2 30)) (at_time 1 30) (Inr 0))
     = Inr None"
proof -
  have a: "time_lt (start_t default_shut_args) (end_t default_shut_args)"
    by (simp add: default_shut_args_def time_lt_def)
  have b: "5 \<le> idle_percent default_shut_args" by (simp add: default_shut_args_def)
  have c: "dt_time (at_time 1 30) = start_t default_shut_args"
    by (simp add: dt_time_at_time_numeral default_shut_args_def)
  note t = nonwrapping_outside [OF a b, of "Some (at_time 2 30)" "at_time 1 30" "Inr 0"]
  from t c have o: "treated_outside
     (fst (check_shutdown default_shut_args 5 (Some (at_time 2 30)) (at_time 1 30) (Inr 0)))"
    by blast
  with t have "snd (check_shutdown default_shut_args 5 (Some (at_time 2 30)) (at_time 1 30)
     (Inr 0)) = Inr None"
    by blast
  with a b c o show ?thesis by blast
qed

text \<open>
  C5. For a window with start > end and usage at or below the threshold, the time of day
  is treated as outside exactly when now < start and now > end; when it is outside the
  call returns \<^verbatim>\<open>None\<close> and does not run the suspend command; every other time of day,
  now = start and now = end included, is inside.
\<close>

theorem wrapping_outside:
  assumes "time_lt (end_t sa) (start_t sa)" and "gpu_usage \<le> idle_percent sa"
  shows "(treated_outside (fst (check_shutdown sa gpu_usage planned_shut now_full call_res))
            \<longleftrightarrow> time_lt (dt_time now_full) (start_t sa) \<and>
                time_lt (end_t sa) (dt_time now_full)) \<and>
         (treated_outside (fst (check_shutdown sa gpu_usage planned_shut now_full call_res))
            \<longrightarrow> snd (check_shutdown sa gpu_usage planned_shut now_full call_res) = Inr None \<and>
               shutdown_count
                 (fst (check_shutdown sa gpu_usage planned_shut now_full call_res)) = 0) \<and>
         (inside_window sa (dt_time now_full)
            \<longleftrightarrow> \<not> (time_lt (dt_time now_full) (start_t sa) \<and>
                    time_lt (end_t sa) (dt_time now_full))) \<and>
         (dt_time now_full = start_t sa \<or> dt_time now_full = end_t sa
            \<longrightarrow> inside_window sa (dt_time now_full) \<and>
               \<not> treated_outside
                   (fst (check_shutdown sa gpu_usage planned_shut now_full call_res)))"
  using assms time_lt_asym [of "end_t sa" "start_t sa"] time_lt_irrefl
  by (auto simp add: check_shutdown_def treated_outside_def outside_range1_def
      outside_range2_def shutdown_count_def do_shutdown_def Let_def inside_window_def
      split: option.splits sum.splits)

theorem wrapping_outside_witness:
  "time_lt (end_t night_shut_args) (start_t night_shut_args) \<and>
   5 \<le> idle_percent night_shut_args \<and>
   treated_outside
     (fst (check_shutdown night_shut_args 5 (Some (at_time 12 30)) (at_time 12 0) (Inr 0))) \<and>
   snd (check_shutdown night_shut_args 5 (Some (at_time 12 30)) (at_time 12 0) (Inr 0))
     = Inr None \<and>
   dt_time (at_time 22 0) = start_t night_shut_args \<and>
   inside_window night_shut_args (dt_time (at_time 22 0))"
proof -
  have a: "time_lt (end_t night_shut_args) (start_t night_shut_args)"
    by (simp add: night_shut_args_def time_lt_def)
  have b: "5 \<le> idle_percent night_shut_args" by (simp add: night_shut_args_def)
  have c: "time_lt (dt_time (at_time 12 0)) (start_t night_shut_args) \<and>
           time_lt (end_t night_shut_args) (dt_time (at_time 12 0))"
    by (simp add: dt_time_at_time_numeral night_shut_args_def time_lt_def)
  have d: "dt_time (at_time 22 0) = start_t night_shut_args"
    by (simp add: dt_time_at_time_numeral night_shut_args_def)
  note noon = wrapping_outside [OF a b, of "Some (at_time 12 30)" "at_time 12 0" "Inr 0"]
  note late = wrapping_outside [OF a b, of "Some (at_time 12 30)" "at_time 22 0" "Inr 0"]
  from noon c have o: "treated_outside
     (fst (check_shutdown night_shut_args 5 (Some (at_time 12 30)) (at_time 12 0) (Inr 0)))"
    by blast
  with noon have r: "snd (check_shutdown night_shut_args 5 (Some (at_time 12 30))
     (at_time 12 0) (Inr 0)) = Inr None"
    by blast
  from late d have i: "inside_window night_shut_args (dt_time (at_time 22 0))"
    by blast
  from a b o r d i show ?thesis by blast
qed

text \<open>
  C6. In state Pending(planned) with now < planned, usage at or below the threshold and
  the time of day inside the window, \<open>check_shutdown\<close> returns Pending(planned)
  unchanged and does not run the suspend command; a further call with the same inputs
  on the returned state gives the same result.
\<close>

theorem pending_idempotent:
  assumes "now_full < planned" and "gpu_usage \<le> idle_percent sa"
    and "inside_window sa (dt_time now_full)"
  shows "snd (check_shutdown sa gpu_usage (Some planned) now_full call_res)
           = Inr (Some planned) \<and>
         shutdown_count (fst (check_shutdown sa gpu_usage (Some planned) now_full call_res))
           = 0 \<and>
         (\<forall>s'. snd (check_shutdown sa gpu_usage (Some planned) now_full call_res) = Inr s'
            \<longrightarrow> check_shutdown sa gpu_usage s' now_full call_res
                = check_shutdown sa gpu_usage (Some planned) now_full call_res)"
  using assms
  by (simp add: check_shutdown_def inside_window_def shutdown_count_def)

theorem pending_idempotent_witness:
  "at_time 2 20 < at_time 2 30 \<and> 5 \<le> idle_percent default_shut_args \<and>
   inside_window default_shut_args (dt_time (at_time 2 20)) \<and>
   snd (check_shutdown default_shut_args 5 (Some (at_time 2 30)) (at_time 2 20) (Inr 0))
     = Inr (Some (at_time 2 30)) \<and>
   shutdown_count
     (fst (check_shutdown default_shut_args 5 (Some (at_time 2 30)) (at_time 2 20) (Inr 0)))
     = 0"
proof -
  have a: "at_time 2 20 < at_time 2 30" by (simp add: at_time_def)
  have b: "5 \<le> idle_percent default_shut_args" by (simp add: default_shut_args_def)
  note t = pending_idempotent [OF a b inside_default_0220, of "Inr 0"]
  from t have r: "snd (check_shutdown default_shut_args 5 (Some (at_time 2 30)) (at_time 2 20)
     (Inr 0)) = Inr (Some (at_time 2 30))"
    by (rule conjunct1)
  from t have n: "shutdown_count
     (fst (check_shutdown default_shut_args 5 (Some (at_time 2 30)) (at_time 2 20) (Inr 0)))
     = 0"
    by blast
  from a b inside_default_0220 r n show ?thesis by blast
qed

text \<open>
  C10. The claim that with start = end any usage at or below the threshold arms or
  advances a pending shutdown at any hour fails where the planned time cannot be
  represented: with the window \<^verbatim>\<open>1:00-1:00\<close>, an idle duration of 9999999999 minutes,
  no pending shutdown, usage 5 and a clock reading in November 2026 the call raises
  \<^verbatim>\<open>OverflowError\<close>.
\<close>

theorem allday_counterexample:
  "start_t far_shut_args = end_t far_shut_args \<and> 5 \<le> idle_percent far_shut_args \<and>
   snd (check_shutdown far_shut_args 5 None (at_time 2 0) (Inr 0)) = Inl OverflowError"
  by (simp add: far_shut_args_def allday_shut_args_def check_shutdown_def
      outside_range1_def outside_range2_def time_lt_def dt_add_def datetime_max_def
      us_per_day_def at_time_def)

text \<open>
  C10, amended. When the window has start = end, neither outside branch of
  \<open>check_shutdown\<close> applies at any time of day. With usage at or below the threshold the
  call keeps a pending shutdown whose time is still ahead, runs the suspend command once
  for one whose time is reached, and with no pending shutdown arms one at
  now + idle duration whenever that datetime is representable.
\<close>

theorem allday_inside:
  assumes "start_t sa = end_t sa" and "gpu_usage \<le> idle_percent sa"
  shows "inside_window sa (dt_time now_full) \<and>
         \<not> treated_outside (fst (check_shutdown sa gpu_usage planned_shut now_full call_res)) \<and>
         (planned_shut = None \<and> 0 \<le> now_full + idle_duration sa \<and>
            now_full + idle_duration sa \<le> datetime_max
          \<longrightarrow> snd (check_shutdown sa gpu_usage planned_shut now_full call_res)
                = Inr (Some (now_full + idle_duration sa))) \<and>
         (\<forall>planned. planned_shut = Some planned \<and> now_full < planned
          \<longrightarrow> snd (check_shutdown sa gpu_usage planned_shut now_full call_res)
                = Inr (Some planned)) \<and>
         (\<forall>planned. planned_shut = Some planned \<and> planned \<le> now_full
          \<longrightarrow> shutdown_count
                (fst (check_shutdown sa gpu_usage planned_shut now_full call_res)) = 1)"
  using assms time_lt_irrefl [of "end_t sa"]
  by (auto simp add: check_shutdown_def treated_outside_def outside_range1_def
      outside_range2_def shutdown_count_def do_shutdown_def Let_def inside_window_def
      dt_add_def split: option.splits sum.splits)

theorem allday_inside_witness:
  "start_t allday_shut_args = end_t allday_shut_args \<and>
   5 \<le> idle_percent allday_shut_args \<and>
   inside_window allday_shut_args (dt_time (at_time 12 0)) \<and>
   \<not> treated_outside (fst (check_shutdown allday_shut_args 5 None (at_time 12 0) (Inr 0))) \<and>
   snd (check_shutdown allday_shut_args 5 None (at_time 12 0) (Inr 0))
     = Inr (Some (at_time 12 30))"
proof -
  have a: "start_t allday_shut_args = end_t allday_shut_args"
    by (simp add: allday_shut_args_def)
  have b: "5 \<le> idle_percent allday_shut_args" by (simp add: allday_shut_args_def)
  have c: "0 \<le> at_time 12 0 + idle_duration allday_shut_args \<and>
           at_time 12 0 + idle_duration allday_shut_args \<le> datetime_max"
    by (simp add: allday_shut_args_def at_time_def datetime_max_def us_per_day_def)
  have d: "at_time 12 0 + idle_duration allday_shut_args = at_time 12 30"
    by (simp add: allday_shut_args_def at_time_def)
  show ?thesis
    using a b c d allday_inside [OF a b, of "at_time 12 0" None "Inr 0"] by simp
qed

section \<open>Properties of the argument pattern\<close>

lemma try_counts_SomeD:
  "try_counts f lo m = Some r \<Longrightarrow> \<exists>k. lo \<le> k \<and> k \<le> m \<and> f k = Some r"
proof (induction m)
  case 0
  then show ?case by (auto split: if_splits)
next
  case (Suc k)
  show ?case
  proof (cases "f (Suc k)")
    case None
    with Suc.prems have "try_counts f lo k = Some r" by (simp split: if_splits)
    from Suc.IH [OF this] show ?thesis by (auto intro: le_SucI)
  next
    case (Some a)
    with Suc.prems have "\<not> Suc k < lo" "f (Suc k) = Some r" by (auto split: if_splits)
    then show ?thesis by (intro exI [of _ "Suc k"]) simp
  qed
qed

lemma try_counts_unique:
  assumes "\<And>k. k \<noteq> n \<Longrightarrow> k \<le> m \<Longrightarrow> f k = None"
  shows "try_counts f lo m = (if lo \<le> n \<and> n \<le> m then f n else None)"
  using assms
proof (induction m)
  case 0
  then show ?case by (cases "n = 0") auto
next
  case (Suc k)
  have ih: "try_counts f lo k = (if lo \<le> n \<and> n \<le> k then f n else None)"
    by (rule Suc.IH) (simp add: Suc.prems)
  show ?case
  proof (cases "n = Suc k")
    case True
    then show ?thesis using ih by (auto split: option.splits)
  next
    case False
    then have "f (Suc k) = None" using Suc.prems [of "Suc k"] by simp
    then show ?thesis using ih False by auto
  qed
qed

lemma py_int_acc:
  "\<forall>c\<in>set w. is_digit c \<Longrightarrow> 0 \<le> (a::int) \<Longrightarrow>
   0 \<le> foldl (\<lambda>a c. 10 * a + (of_char c - 48)) a w \<and>
   foldl (\<lambda>a c. 10 * a + (of_char c - 48)) a w < (a + 1) * 10 ^ length w"
proof (induction w arbitrary: a)
  case Nil
  then show ?case by simp
next
  case (Cons c w)
  from Cons.prems have d: "is_digit c" by simp
  then have v: "0 \<le> (of_char c - 48 :: int) \<and> (of_char c - 48 :: int) \<le> 9"
    by (auto simp: is_digit_def)
  let ?b = "10 * a + (of_char c - 48)"
  from v Cons.prems have b0: "0 \<le> ?b" by simp
  from Cons.prems have "\<forall>c\<in>set w. is_digit c" by simp
  from Cons.IH [OF this b0]
  have ih: "0 \<le> foldl (\<lambda>a c. 10 * a + (of_char c - 48)) ?b w"
    "foldl (\<lambda>a c. 10 * a + (of_char c - 48)) ?b w < (?b + 1) * 10 ^ length w"
    by simp_all
  from v have "?b + 1 \<le> (a + 1) * 10" by simp
  then have "(?b + 1) * 10 ^ length w \<le> ((a + 1) * 10) * 10 ^ length w"
    by (rule mult_right_mono) simp
  with ih(2) have "foldl (\<lambda>a c. 10 * a + (of_char c - 48)) ?b w
      < ((a + 1) * 10) * 10 ^ length w"
    by (rule less_le_trans)
  also have "((a + 1) * 10) * 10 ^ length w = (a + 1) * 10 ^ length (c # w)"
    by simp
  finally have "foldl (\<lambda>a c. 10 * a + (of_char c - 48)) ?b w < (a + 1) * 10 ^ length (c # w)" .
  with ih(1) show ?case by simp
qed

lemma py_int_bounds:
  "\<forall>c\<in>set w. is_digit c \<Longrightarrow> 0 \<le> py_int w \<and> py_int w < 10 ^ length w"
  using py_int_acc [of w 0] by (simp add: py_int_def)

lemma re_match_group:
  "re_match items s g = Some g' \<Longrightarrow> g' name = Some w \<Longrightarrow>
   g name = Some w \<or>
   (\<exists>lo hi. Digits lo hi name \<in> set items \<and> lo \<le> length w \<and>
      (\<forall>h. hi = Some h \<longrightarrow> length w \<le> h) \<and> (\<forall>c\<in>set w. is_digit c))"
proof (induction items arbitrary: s g)
  case Nil
  then show ?case by simp
next
  case (Cons it items)
  show ?case
  proof (cases it)
    case (Lit c)
    with Cons.prems obtain xs where "re_match items xs g = Some g'"
      by (auto split: list.splits if_splits)
    from Cons.IH [OF this Cons.prems(2)] show ?thesis by auto
  next
    case Dollar
    with Cons.prems have "re_match items s g = Some g'"
      by (auto split: if_splits)
    from Cons.IH [OF this Cons.prems(2)] show ?thesis by auto
  next
    case (Digits lo hi n)
    let ?avail = "length (takeWhile is_digit s)"
    let ?m = "case hi of None \<Rightarrow> ?avail | Some h \<Rightarrow> min h ?avail"
    from Cons.prems(1) Digits
    have "try_counts (\<lambda>k. re_match items (drop k s) (g(n \<mapsto> take k s))) lo ?m = Some g'"
      by simp
    from try_counts_SomeD [OF this] obtain k where
      k: "lo \<le> k" "k \<le> ?m" "re_match items (drop k s) (g(n \<mapsto> take k s)) = Some g'"
      by blast
    from k(2) have ka: "k \<le> ?avail" by (cases hi) auto
    from k(2) have kh: "\<forall>h. hi = Some h \<longrightarrow> k \<le> h" by (cases hi) auto
    have "?avail \<le> length s" by (rule length_takeWhile_le)
    with ka have len: "length (take k s) = k" by simp
    have "take k s = take k (takeWhile is_digit s)"
    proof -
      have "take k (takeWhile is_digit s @ dropWhile is_digit s) = take k (takeWhile is_digit s)"
        by (simp only: take_append) (simp add: ka)
      then show ?thesis by simp
    qed
    then have "set (take k s) \<subseteq> set (takeWhile is_digit s)"
      by (metis set_take_subset)
    then have dig: "\<forall>c\<in>set (take k s). is_digit c"
      by (auto dest: set_takeWhileD)
    from Cons.IH [OF k(3) Cons.prems(2)]
    show ?thesis
    proof
      assume a: "(g(n \<mapsto> take k s)) name = Some w"
      show ?thesis
      proof (cases "name = n")
        case True
        with a have "w = take k s" by simp
        with True Digits k(1) kh len dig show ?thesis by auto
      next
        case False
        with a show ?thesis by simp
      qed
    next
      assume "\<exists>lo hi. Digits lo hi name \<in> set items \<and> lo \<le> length w \<and>
        (\<forall>h. hi = Some h \<longrightarrow> length w \<le> h) \<and> (\<forall>c\<in>set w. is_digit c)"
      then show ?thesis by auto
    qed
  qed
qed

lemma re_match_dom:
  "re_match items s g = Some g' \<Longrightarrow>
   (g name \<noteq> None \<longrightarrow> g' name \<noteq> None) \<and>
   (\<forall>lo hi. Digits lo hi name \<in> set items \<longrightarrow> g' name \<noteq> None)"
proof (induction items arbitrary: s g)
  case Nil
  then show ?case by simp
next
  case (Cons it items)
  show ?case
  proof (cases it)
    case (Lit c)
    with Cons.prems obtain xs where "re_match items xs g = Some g'"
      by (auto split: list.splits if_splits)
    from Cons.IH [OF this] Lit show ?thesis by auto
  next
    case Dollar
    with Cons.prems have "re_match items s g = Some g'"
      by (auto split: if_splits)
    from Cons.IH [OF this] Dollar show ?thesis by auto
  next
    case (Digits lo hi n)
    let ?m = "case hi of None \<Rightarrow> length (takeWhile is_digit s)
              | Some h \<Rightarrow> min h (length (takeWhile is_digit s))"
    from Cons.prems(1) Digits
    have "try_counts (\<lambda>k. re_match items (drop k s) (g(n \<mapsto> take k s))) lo ?m = Some g'"
      by simp
    from try_counts_SomeD [OF this] obtain k where
      "re_match items (drop k s) (g(n \<mapsto> take k s)) = Some g'"
      by blast
    from Cons.IH [OF this] Digits show ?thesis by auto
  qed
qed

lemma drop_digits_nonempty:
  assumes "k < length w"
  shows "drop k (w @ rest) = w ! k # drop (Suc k) w @ rest"
  using assms by (simp add: Cons_nth_drop_Suc)

lemma digits_then_lit:
  assumes dig: "\<forall>x\<in>set w. is_digit x" and c: "\<not> is_digit c"
  shows "re_match (Digits lo hi name # Lit c # items) (w @ c # rest) g =
           (if fits lo hi (length w) then re_match items rest (g(name \<mapsto> w)) else None)"
proof -
  let ?f = "\<lambda>k. re_match (Lit c # items) (drop k (w @ c # rest))
                  (g(name \<mapsto> take k (w @ c # rest)))"
  let ?m = "case hi of None \<Rightarrow> length w | Some h \<Rightarrow> min h (length w)"
  have tw: "takeWhile is_digit (w @ c # rest) = w"
    using dig c by (simp add: takeWhile_tail)
  have other: "?f k = None" if "k \<noteq> length w" "k \<le> ?m" for k
  proof -
    from that have lt: "k < length w" by (cases hi) auto
    then have "w ! k \<in> set w" by simp
    with dig c have ne: "w ! k \<noteq> c" by auto
    have eq: "drop k (w @ c # rest) = w ! k # drop (Suc k) w @ c # rest"
      using lt by (rule drop_digits_nonempty)
    show ?thesis unfolding eq re_match.simps using ne by simp
  qed
  have "re_match (Digits lo hi name # Lit c # items) (w @ c # rest) g = try_counts ?f lo ?m"
    by (simp only: re_match.simps tw)
  also have "\<dots> = (if lo \<le> length w \<and> length w \<le> ?m then ?f (length w) else None)"
    by (rule try_counts_unique) (rule other)
  also have "\<dots> = (if fits lo hi (length w) then re_match items rest (g(name \<mapsto> w)) else None)"
    by (cases hi) (simp_all add: fits_def)
  finally show ?thesis .
qed

lemma digits_then_dollar:
  assumes dig: "\<forall>x\<in>set w. is_digit x"
  shows "re_match [Digits lo hi name, Dollar] w g =
           (if fits lo hi (length w) then Some (g(name \<mapsto> w)) else None)"
proof -
  let ?f = "\<lambda>k. re_match [Dollar] (drop k w) (g(name \<mapsto> take k w))"
  let ?m = "case hi of None \<Rightarrow> length w | Some h \<Rightarrow> min h (length w)"
  have tw: "takeWhile is_digit w = w"
    using dig by simp
  have other: "?f k = None" if "k \<noteq> length w" "k \<le> ?m" for k
  proof -
    from that have lt: "k < length w" by (cases hi) auto
    then have "w ! k \<in> set w" by simp
    with dig have "is_digit (w ! k)" by simp
    then have ne: "w ! k \<noteq> CHR 0x0A" by (auto simp: is_digit_def)
    have eq: "drop k w = w ! k # drop (Suc k) w"
      using lt by (simp add: Cons_nth_drop_Suc)
    show ?thesis unfolding eq re_match.simps using ne by simp
  qed
  have "re_match [Digits lo hi name, Dollar] w g = try_counts ?f lo ?m"
    by (simp only: re_match.simps tw)
  also have "\<dots> = (if lo \<le> length w \<and> length w \<le> ?m then ?f (length w) else None)"
    by (rule try_counts_unique) (rule other)
  also have "\<dots> = (if fits lo hi (length w) then Some (g(name \<mapsto> w)) else None)"
    by (cases hi) (simp_all add: fits_def)
  finally show ?thesis .
qed

lemma digits_fail_nondigit:
  assumes "\<not> is_digit c" and "0 < lo"
  shows "re_match (Digits lo hi name # items) (c # rest) g = None"
  using assms by (cases hi) simp_all

lemma not_digit_punct:
  "\<not> is_digit CHR '':''" "\<not> is_digit CHR ''-''" "\<not> is_digit CHR '',''"
  by (simp_all add: is_digit_def)

lemma match_spec_string:
  assumes "\<forall>x\<in>set sh. is_digit x" "\<forall>x\<in>set sm. is_digit x" "\<forall>x\<in>set eh. is_digit x"
    "\<forall>x\<in>set em. is_digit x" "\<forall>x\<in>set d. is_digit x" "\<forall>x\<in>set p. is_digit x"
  shows "re_match SHUT_ARGS_PATTERN (spec_string sh sm eh em d p) Map.empty =
     (if fits 1 (Some 2) (length sh) \<and> fits 2 (Some 2) (length sm) \<and>
         fits 1 (Some 2) (length eh) \<and> fits 2 (Some 2) (length em) \<and>
         fits 1 None (length d) \<and> fits 1 (Some 2) (length p)
      then Some [''start_h'' \<mapsto> sh, ''start_min'' \<mapsto> sm, ''end_h'' \<mapsto> eh, ''end_min'' \<mapsto> em,
                 ''idle_duration'' \<mapsto> d, ''idle_percent'' \<mapsto> p]
      else None)"
  using assms
  by (simp add: SHUT_ARGS_PATTERN_def spec_string_def digits_then_lit digits_then_dollar
      not_digit_punct del: re_match.simps)

lemma match_negative_percent:
  assumes "\<forall>x\<in>set sh. is_digit x" "\<forall>x\<in>set sm. is_digit x" "\<forall>x\<in>set eh. is_digit x"
    "\<forall>x\<in>set em. is_digit x" "\<forall>x\<in>set d. is_digit x"
  shows "re_match SHUT_ARGS_PATTERN (spec_string sh sm eh em d (CHR ''-'' # q)) Map.empty = None"
  using assms
  by (simp add: SHUT_ARGS_PATTERN_def spec_string_def digits_then_lit digits_fail_nondigit
      not_digit_punct del: re_match.simps)

lemma match_negative_duration:
  assumes "\<forall>x\<in>set sh. is_digit x" "\<forall>x\<in>set sm. is_digit x" "\<forall>x\<in>set eh. is_digit x"
    "\<forall>x\<in>set em. is_digit x"
  shows "re_match SHUT_ARGS_PATTERN (spec_string sh sm eh em (CHR ''-'' # q) p) Map.empty = None"
  using assms
  by (simp add: SHUT_ARGS_PATTERN_def spec_string_def digits_then_lit digits_fail_nondigit
      not_digit_punct del: re_match.simps)

lemma shut_pattern_groups:
  assumes "re_match SHUT_ARGS_PATTERN s Map.empty = Some g"
  shows "\<exists>p d. g ''idle_percent'' = Some p \<and> (\<forall>c\<in>set p. is_digit c) \<and> length p \<le> 2 \<and>
           g ''idle_duration'' = Some d \<and> (\<forall>c\<in>set d. is_digit c)"
proof -
  from re_match_dom [OF assms, of "''idle_percent''"]
  obtain p where p: "g ''idle_percent'' = Some p"
    by (auto simp: SHUT_ARGS_PATTERN_def)
  from re_match_dom [OF assms, of "''idle_duration''"]
  obtain d where d: "g ''idle_duration'' = Some d"
    by (auto simp: SHUT_ARGS_PATTERN_def)
  from re_match_group [OF assms p]
  have pp: "(\<forall>c\<in>set p. is_digit c) \<and> length p \<le> 2"
    by (auto simp: SHUT_ARGS_PATTERN_def)
  from re_match_group [OF assms d]
  have dd: "\<forall>c\<in>set d. is_digit c"
    by (auto simp: SHUT_ARGS_PATTERN_def)
  from p d pp dd show ?thesis by blast
qed

lemma py_int_two_digits:
  assumes "\<forall>c\<in>set p. is_digit c" and "length p \<le> 2"
  shows "0 \<le> py_int p \<and> py_int p \<le> 99"
proof -
  from py_int_bounds [OF assms(1)] have b: "0 \<le> py_int p" "py_int p < 10 ^ length p"
    by simp_all
  from assms(2) have "(10::int) ^ length p \<le> 10 ^ 2"
    by (intro power_increasing) simp_all
  with b show ?thesis by simp
qed

lemma parse_args_accepted:
  assumes "parse_args args = (evs, Inr (ArgsPair a (Some sa)))"
  shows "0 \<le> idle_percent sa \<and> idle_percent sa \<le> 99 \<and> 0 \<le> idle_duration sa"
proof -
  from assms obtain g where g: "re_match SHUT_ARGS_PATTERN (shutdown args) Map.empty = Some g"
    and pct: "idle_percent sa = py_int (group g ''idle_percent'')"
    and dur: "timedelta_seconds (60 * py_int (group g ''idle_duration'')) = Inr (idle_duration sa)"
    by (auto simp: parse_args_def split: if_splits option.splits sum.splits)
  from shut_pattern_groups [OF g] obtain p d where
    p: "g ''idle_percent'' = Some p" "\<forall>c\<in>set p. is_digit c" "length p \<le> 2" and
    d: "g ''idle_duration'' = Some d" "\<forall>c\<in>set d. is_digit c"
    by blast
  from p pct py_int_two_digits [OF p(2) p(3)]
  have 1: "0 \<le> idle_percent sa \<and> idle_percent sa \<le> 99"
    by (simp add: group_def)
  from py_int_bounds [OF d(2)] have "0 \<le> py_int d" by simp
  with dur d(1) have 2: "0 \<le> idle_duration sa"
    by (auto simp: group_def timedelta_seconds_def split: if_splits)
  from 1 2 show ?thesis by simp
qed

lemma parse_args_unmatched:
  assumes "s \<noteq> []" and "re_match SHUT_ARGS_PATTERN s Map.empty = None"
  shows "parse_args (argv\<lparr>shutdown := s\<rparr>) =
           ([Stderr ''failed to parse shutdown args {0!r}'' s], Inr (IntCode 2))"
  using assms by (simp add: parse_args_def)

lemma spec_string_nonempty: "spec_string sh sm eh em d p \<noteq> []"
  by (simp add: spec_string_def)

lemma py_int_many_digits:
  assumes "\<forall>c\<in>set p. is_digit c" and "99 < py_int p"
  shows "\<not> fits 1 (Some 2) (length p)"
proof
  assume "fits 1 (Some 2) (length p)"
  then have "length p \<le> 2" by (simp add: fits_def)
  from py_int_two_digits [OF assms(1) this] assms(2) show False by simp
qed

lemma parse_args_default:
  "parse_args default_args = ([], Inr (ArgsPair default_args (Some default_shut_args)))"
  by (simp add: parse_args_def default_args_def SHUT_ARGS_PATTERN_def is_digit_def
      numeral_2_eq_2 group_def py_int_def mk_time_def timedelta_seconds_def
      default_shut_args_def)

lemma parse_args_far:
  "parse_args (default_args\<lparr>shutdown := ''1:00-1:00,9999999999,10''\<rparr>) =
     ([], Inr (ArgsPair (default_args\<lparr>shutdown := ''1:00-1:00,9999999999,10''\<rparr>)
        (Some far_shut_args)))"
  by (simp add: parse_args_def default_args_def SHUT_ARGS_PATTERN_def is_digit_def
      numeral_2_eq_2 group_def py_int_def mk_time_def timedelta_seconds_def
      far_shut_args_def allday_shut_args_def)

text \<open>
  C8. The claim that every accepted specification has an idle duration above zero, and
  that every specification with an idle duration of zero or less is rejected, fails:
  \<^verbatim>\<open>1:30-9:00,0,10\<close> is accepted and yields a window whose idle duration is 0.
\<close>

theorem zero_duration_counterexample:
  "snd (parse_args (default_args\<lparr>shutdown := ''1:30-9:00,0,10''\<rparr>)) =
     Inr (ArgsPair (default_args\<lparr>shutdown := ''1:30-9:00,0,10''\<rparr>)
       (Some (default_shut_args\<lparr>idle_duration := 0\<rparr>))) \<and>
   \<not> 0 < idle_duration (default_shut_args\<lparr>idle_duration := 0\<rparr>)"
  by (simp add: parse_args_def default_args_def SHUT_ARGS_PATTERN_def is_digit_def
      numeral_2_eq_2 group_def py_int_def mk_time_def timedelta_seconds_def
      default_shut_args_def)

text \<open>
  C8, amended. Every specification that \<open>parse_args\<close> accepts yields a window with an
  idle percent in [0,100] (in fact at most 99) and an idle duration of at least 0. A
  specification \<^verbatim>\<open>H:MM-H:MM,D,P\<close> of digit fields whose percent is above 100 is rejected
  (\<open>parse_args\<close> returns 2), and so is one whose percent or whose duration carries a
  minus sign. An idle duration of 0 is not rejected.
\<close>

theorem parse_args_window:
  "(parse_args args = (evs, Inr (ArgsPair a (Some sa))) \<longrightarrow>
      0 \<le> idle_percent sa \<and> idle_percent sa \<le> 100 \<and> 0 \<le> idle_duration sa) \<and>
   ((\<forall>c\<in>set (sh @ sm @ eh @ em @ d @ p). is_digit c) \<and> 100 < py_int p \<longrightarrow>
      snd (parse_args (argv\<lparr>shutdown := spec_string sh sm eh em d p\<rparr>)) = Inr (IntCode 2)) \<and>
   ((\<forall>c\<in>set (sh @ sm @ eh @ em @ d). is_digit c) \<longrightarrow>
      snd (parse_args (argv\<lparr>shutdown := spec_string sh sm eh em d (CHR ''-'' # q)\<rparr>))
        = Inr (IntCode 2)) \<and>
   ((\<forall>c\<in>set (sh @ sm @ eh @ em). is_digit c) \<longrightarrow>
      snd (parse_args (argv\<lparr>shutdown := spec_string sh sm eh em (CHR ''-'' # q) p\<rparr>))
        = Inr (IntCode 2))"
proof (intro conjI impI)
  assume "parse_args args = (evs, Inr (ArgsPair a (Some sa)))"
  from parse_args_accepted [OF this]
  show "0 \<le> idle_percent sa" "idle_percent sa \<le> 100" "0 \<le> idle_duration sa"
    by simp_all
next
  assume h: "(\<forall>c\<in>set (sh @ sm @ eh @ em @ d @ p). is_digit c) \<and> 100 < py_int p"
  then have "\<forall>c\<in>set p. is_digit c" "99 < py_int p" by simp_all
  then have "\<not> fits 1 (Some 2) (length p)" by (rule py_int_many_digits)
  with h have "re_match SHUT_ARGS_PATTERN (spec_string sh sm eh em d p) Map.empty = None"
    by (subst match_spec_string) simp_all
  with spec_string_nonempty
  show "snd (parse_args (argv\<lparr>shutdown := spec_string sh sm eh em d p\<rparr>)) = Inr (IntCode 2)"
    by (simp add: parse_args_unmatched)
next
  assume "\<forall>c\<in>set (sh @ sm @ eh @ em @ d). is_digit c"
  then have "re_match SHUT_ARGS_PATTERN (spec_string sh sm eh em d (CHR ''-'' # q)) Map.empty
     = None"
    by (intro match_negative_percent) simp_all
  with spec_string_nonempty
  show "snd (parse_args (argv\<lparr>shutdown := spec_string sh sm eh em d (CHR ''-'' # q)\<rparr>))
     = Inr (IntCode 2)"
    by (simp add: parse_args_unmatched)
next
  assume "\<forall>c\<in>set (sh @ sm @ eh @ em). is_digit c"
  then have "re_match SHUT_ARGS_PATTERN (spec_string sh sm eh em (CHR ''-'' # q) p) Map.empty
     = None"
    by (intro match_negative_duration) simp_all
  with spec_string_nonempty
  show "snd (parse_args (argv\<lparr>shutdown := spec_string sh sm eh em (CHR ''-'' # q) p\<rparr>))
     = Inr (IntCode 2)"
    by (simp add: parse_args_unmatched)
qed

theorem parse_args_window_witness:
  "parse_args default_args = ([], Inr (ArgsPair default_args (Some default_shut_args))) \<and>
   0 \<le> idle_percent default_shut_args \<and> idle_percent default_shut_args \<le> 100 \<and>
   0 \<le> idle_duration default_shut_args \<and>
   100 < py_int ''101'' \<and>
   snd (parse_args (default_args\<lparr>shutdown := ''1:30-9:00,30,101''\<rparr>)) = Inr (IntCode 2) \<and>
   snd (parse_args (default_args\<lparr>shutdown := ''1:30-9:00,30,-5''\<rparr>)) = Inr (IntCode 2) \<and>
   snd (parse_args (default_args\<lparr>shutdown := ''1:30-9:00,-5,101''\<rparr>)) = Inr (IntCode 2)"
proof -
  note t = parse_args_window [where args = default_args and evs = "[]" and a = default_args
      and sa = default_shut_args and sh = "''1''" and sm = "''30''" and eh = "''9''"
      and em = "''00''" and d = "''30''" and p = "''101''" and argv = default_args
      and q = "''5''"]
  have dig: "\<forall>c\<in>set (''1'' @ ''30'' @ ''9'' @ ''00'' @ ''30'' @ ''101''). is_digit c"
    by (simp add: is_digit_def)
  have big: "100 < py_int ''101''" by (simp add: py_int_def)
  have s1: "spec_string ''1'' ''30'' ''9'' ''00'' ''30'' ''101'' = ''1:30-9:00,30,101''"
    and s2: "spec_string ''1'' ''30'' ''9'' ''00'' ''30'' (CHR ''-'' # ''5'') = ''1:30-9:00,30,-5''"
    and s3: "spec_string ''1'' ''30'' ''9'' ''00'' (CHR ''-'' # ''5'') ''101'' = ''1:30-9:00,-5,101''"
    by (simp_all add: spec_string_def)
  from t parse_args_default
  have a: "0 \<le> idle_percent default_shut_args \<and> idle_percent default_shut_args \<le> 100 \<and>
           0 \<le> idle_duration default_shut_args"
    by blast
  from t dig big
  have b: "snd (parse_args (default_args\<lparr>shutdown := ''1:30-9:00,30,101''\<rparr>)) = Inr (IntCode 2)"
    unfolding s1 by blast
  from t dig
  have c: "snd (parse_args (default_args\<lparr>shutdown := ''1:30-9:00,30,-5''\<rparr>)) = Inr (IntCode 2)"
    unfolding s2 by simp
  from t dig
  have d: "snd (parse_args (default_args\<lparr>shutdown := ''1:30-9:00,-5,101''\<rparr>)) = Inr (IntCode 2)"
    unfolding s3 by simp
  from parse_args_default a big b c d show ?thesis by blast
qed

text \<open>
  C7. For a non-empty \<^verbatim>\<open>--shutdown\<close> string that the pattern does not match,
  \<open>parse_args\<close> reports the error on standard error and returns 2, and \<open>main\<close> then
  raises \<^verbatim>\<open>TypeError\<close> when it unpacks this integer: the process ends before the loop
  starts, but with exit status 1 and not with the status 2 that \<open>parse_args\<close> returned.
\<close>

theorem unparsed_shutdown_exit:
  assumes "s \<noteq> []" and "re_match SHUT_ARGS_PATTERN s Map.empty = None"
  shows "main (argv\<lparr>shutdown := s\<rparr>) ev =
           ([Stderr ''failed to parse shutdown args {0!r}'' s], Raised TypeError) \<and>
         exit_status (snd (main (argv\<lparr>shutdown := s\<rparr>) ev)) = Some 1"
  using assms by (simp add: main_def startup_def parse_args_unmatched exit_status_def)

theorem unparsed_shutdown_exit_witness:
  "''garbage'' \<noteq> [] \<and> re_match SHUT_ARGS_PATTERN ''garbage'' Map.empty = None \<and>
   main (default_args\<lparr>shutdown := ''garbage''\<rparr>) quiet_env =
     ([Stderr ''failed to parse shutdown args {0!r}'' ''garbage''], Raised TypeError) \<and>
   exit_status (snd (main (default_args\<lparr>shutdown := ''garbage''\<rparr>) quiet_env)) = Some 1"
proof -
  have a: "''garbage'' \<noteq> []" by simp
  have b: "re_match SHUT_ARGS_PATTERN ''garbage'' Map.empty = None"
    by (simp add: SHUT_ARGS_PATTERN_def is_digit_def)
  from a b unparsed_shutdown_exit [OF a b, of default_args quiet_env] show ?thesis
    by blast
qed

section \<open>Properties of the monitor loop\<close>

text \<open>
  An iteration whose library calls and \<^verbatim>\<open>sleep\<close> succeed performs the events of
  \<open>check_shutdown\<close> between the queries and the status line, and the value that \<^verbatim>\<open>main\<close>
  stores in \<^verbatim>\<open>will_shut\<close> is the one \<open>check_shutdown\<close> returned.
\<close>

lemma loop_body_ok:
  assumes "handle_res t = Inr h" and "util_res t = Inr u" and "temp_res t = Inr tp"
    and "fan_res t = Inr f" and "sleep_res t = None"
    and "check_shutdown s (fst u) w (shut_now t) (suspend_res t) = (cevs, Inr w')"
  shows "loop_body args (Some s) w t =
           ([NvmlDeviceGetHandleByIndex (gpu_index args), NvmlDeviceGetUtilizationRates,
             NvmlDeviceGetTemperature, NvmlDeviceGetFanSpeed] @ cevs @
            [Log INFO
               ''{0[time]:%H:%M:%S}: gpu {0[gpu-idx]} at {0[gpu]:02d}%, mem at {0[mem]:02d}%, temp {0[temp]:02d}C {1}''
               ([data_now t, gpu_index args, fst u, snd u, tp] @
                (case w' of None \<Rightarrow> [] | Some ws \<Rightarrow> [ws])),
             Sleep],
            Inr w')"
  using assms
  by (simp add: loop_body_def get_data_def bind_res_def print_data_def)

lemma loop_body_will_shut:
  assumes "handle_res t = Inr h" and "util_res t = Inr u" and "temp_res t = Inr tp"
    and "fan_res t = Inr f" and "sleep_res t = None"
  shows "snd (loop_body args (Some s) w t) =
           snd (check_shutdown s (fst u) w (shut_now t) (suspend_res t))"
proof (cases "check_shutdown s (fst u) w (shut_now t) (suspend_res t)")
  case (Pair evs r)
  with assms show ?thesis
    by (cases r) (simp_all add: loop_body_def get_data_def bind_res_def print_data_def)
qed

lemma loop_body_fire:
  assumes "handle_res t = Inr h" and "util_res t = Inr (gpu_usage, m)" and "temp_res t = Inr tp"
    and "fan_res t = Inr f" and "sleep_res t = None" and "suspend_res t = Inr rc"
    and "planned \<le> shut_now t" and "gpu_usage \<le> idle_percent sa"
    and "inside_window sa (dt_time (shut_now t))"
  shows "snd (loop_body args (Some sa) (Some planned) t) = Inr None"
    and "shutdown_count (fst (loop_body args (Some sa) (Some planned) t)) = 1"
proof -
  have c: "check_shutdown sa (fst (gpu_usage, m)) (Some planned) (shut_now t) (suspend_res t) =
      ([Log WARNING ''been idle long enough, shutting down now'' [],
        Call [''systemctl'', ''suspend'']], Inr None)"
    using assms(6) check_shutdown_fire [OF assms(7) assms(8) assms(9), of rc] by simp
  note b = loop_body_ok [OF assms(1) assms(2) assms(3) assms(4) assms(5) c, of args]
  show "snd (loop_body args (Some sa) (Some planned) t) = Inr None"
    by (simp add: b)
  show "shutdown_count (fst (loop_body args (Some sa) (Some planned) t)) = 1"
    by (simp add: b shutdown_count_def)
qed

lemma loop_body_arm:
  assumes "handle_res t = Inr h" and "util_res t = Inr (gpu_usage, m)" and "temp_res t = Inr tp"
    and "fan_res t = Inr f" and "sleep_res t = None"
    and "gpu_usage \<le> idle_percent sa" and "inside_window sa (dt_time (shut_now t))"
    and "0 \<le> shut_now t + idle_duration sa" and "shut_now t + idle_duration sa \<le> datetime_max"
  shows "snd (loop_body args (Some sa) None t) = Inr (Some (shut_now t + idle_duration sa))"
    and "shutdown_count (fst (loop_body args (Some sa) None t)) = 0"
proof -
  have c: "check_shutdown sa (fst (gpu_usage, m)) None (shut_now t) (suspend_res t) =
      ([Log INFO ''GPU now idle, will shutdown in {0} if this stays'' [idle_duration sa]],
       Inr (Some (shut_now t + idle_duration sa)))"
    using check_shutdown_arm [OF assms(6) assms(7) assms(8) assms(9)] by simp
  note b = loop_body_ok [OF assms(1) assms(2) assms(3) assms(4) assms(5) c, of args]
  show "snd (loop_body args (Some sa) None t) = Inr (Some (shut_now t + idle_duration sa))"
    by (simp add: b)
  show "shutdown_count (fst (loop_body args (Some sa) None t)) = 0"
    by (simp add: b shutdown_count_def)
qed

text \<open>
  C2, amended. After the suspend command has run and returned, \<open>check_shutdown\<close> returns
  \<^verbatim>\<open>None\<close>, the Inactive state (when the command raises, so does the call). In an
  iteration of the loop that fires, \<^verbatim>\<open>main\<close> stores this \<^verbatim>\<open>None\<close> in \<^verbatim>\<open>will_shut\<close>. The next
  iteration, started from the stored state with usage still at or below the threshold
  inside the window, does not run the suspend command again: it arms a new pending
  shutdown at now + idle duration, whenever that datetime is representable. Over the two
  iterations the suspend command runs once.
\<close>

theorem after_fire_inactive:
  assumes "planned \<le> now_full" and "gpu_usage \<le> idle_percent sa"
    and "inside_window sa (dt_time now_full)"
  shows "snd (check_shutdown sa gpu_usage (Some planned) now_full call_res) =
           (case call_res of Inl e \<Rightarrow> Inl e | Inr rc \<Rightarrow> Inr None) \<and>
         (handle_res t = Inr h \<and> util_res t = Inr (gpu_usage, m) \<and> temp_res t = Inr tp \<and>
          fan_res t = Inr f \<and> sleep_res t = None \<and> suspend_res t = Inr rc \<and>
          shut_now t = now_full \<longrightarrow>
            snd (loop_body args (Some sa) (Some planned) t) = Inr None \<and>
            shutdown_count (fst (loop_body args (Some sa) (Some planned) t)) = 1 \<and>
            (handle_res t' = Inr h' \<and> util_res t' = Inr (usage', m') \<and> temp_res t' = Inr tp' \<and>
             fan_res t' = Inr f' \<and> sleep_res t' = None \<and>
             usage' \<le> idle_percent sa \<and> inside_window sa (dt_time (shut_now t')) \<and>
             0 \<le> shut_now t' + idle_duration sa \<and>
             shut_now t' + idle_duration sa \<le> datetime_max \<longrightarrow>
               (\<forall>w'. snd (loop_body args (Some sa) (Some planned) t) = Inr w' \<longrightarrow>
                  snd (loop_body args (Some sa) w' t')
                    = Inr (Some (shut_now t' + idle_duration sa)) \<and>
                  shutdown_count (fst (loop_body args (Some sa) w' t')) = 0) \<and>
               shutdown_count (fst (monitor_loop args (Some sa) (Some planned) [t, t'])) = 1))"
proof (intro conjI impI)
  show "snd (check_shutdown sa gpu_usage (Some planned) now_full call_res) =
          (case call_res of Inl e \<Rightarrow> Inl e | Inr rc \<Rightarrow> Inr None)"
    using assms
    by (simp add: check_shutdown_def inside_window_def do_shutdown_def split: sum.splits)
next
  assume t: "handle_res t = Inr h \<and> util_res t = Inr (gpu_usage, m) \<and> temp_res t = Inr tp \<and>
          fan_res t = Inr f \<and> sleep_res t = None \<and> suspend_res t = Inr rc \<and>
          shut_now t = now_full"
  then have p: "planned \<le> shut_now t" and i: "inside_window sa (dt_time (shut_now t))"
    using assms by simp_all
  from t have th: "handle_res t = Inr h" "util_res t = Inr (gpu_usage, m)"
    "temp_res t = Inr tp" "fan_res t = Inr f" "sleep_res t = None" "suspend_res t = Inr rc"
    by simp_all
  note fire = loop_body_fire [OF th p assms(2) i, of args]
  show s1: "snd (loop_body args (Some sa) (Some planned) t) = Inr None"
    by (rule fire(1))
  show c1: "shutdown_count (fst (loop_body args (Some sa) (Some planned) t)) = 1"
    by (rule fire(2))
  assume t': "handle_res t' = Inr h' \<and> util_res t' = Inr (usage', m') \<and> temp_res t' = Inr tp' \<and>
             fan_res t' = Inr f' \<and> sleep_res t' = None \<and>
             usage' \<le> idle_percent sa \<and> inside_window sa (dt_time (shut_now t')) \<and>
             0 \<le> shut_now t' + idle_duration sa \<and>
             shut_now t' + idle_duration sa \<le> datetime_max"
  then have th': "handle_res t' = Inr h'" "util_res t' = Inr (usage', m')"
    "temp_res t' = Inr tp'" "fan_res t' = Inr f'" "sleep_res t' = None"
    "usage' \<le> idle_percent sa" "inside_window sa (dt_time (shut_now t'))"
    "0 \<le> shut_now t' + idle_duration sa" "shut_now t' + idle_duration sa \<le> datetime_max"
    by simp_all
  note arm = loop_body_arm [OF th', of args]
  show "\<forall>w'. snd (loop_body args (Some sa) (Some planned) t) = Inr w' \<longrightarrow>
          snd (loop_body args (Some sa) w' t') = Inr (Some (shut_now t' + idle_duration sa)) \<and>
          shutdown_count (fst (loop_body args (Some sa) w' t')) = 0"
    using arm by (simp add: s1)
  obtain e1 where b1: "loop_body args (Some sa) (Some planned) t = (e1, Inr None)"
    using s1 by (cases "loop_body args (Some sa) (Some planned) t") simp
  obtain e2 where b2: "loop_body args (Some sa) None t' =
      (e2, Inr (Some (shut_now t' + idle_duration sa)))"
    using arm(1) by (cases "loop_body args (Some sa) None t'") simp
  from c1 b1 have n1: "shutdown_count e1 = 1" by simp
  from arm(2) b2 have n2: "shutdown_count e2 = 0" by simp
  have "fst (monitor_loop args (Some sa) (Some planned) [t, t']) = e1 @ e2"
    by (simp add: b1 b2)
  with n1 n2 show "shutdown_count (fst (monitor_loop args (Some sa) (Some planned) [t, t'])) = 1"
    by (simp add: shutdown_count_def)
qed

theorem after_fire_inactive_witness:
  "at_time 2 30 \<le> at_time 2 35 \<and> 5 \<le> idle_percent default_shut_args \<and>
   inside_window default_shut_args (dt_time (at_time 2 35)) \<and>
   snd (check_shutdown default_shut_args 5 (Some (at_time 2 30)) (at_time 2 35) (Inr 0))
     = Inr None \<and>
   snd (loop_body default_args (Some default_shut_args) (Some (at_time 2 30)) fire_tick)
     = Inr None \<and>
   snd (loop_body default_args (Some default_shut_args) None next_tick)
     = Inr (Some (at_time 3 6)) \<and>
   shutdown_count (fst (monitor_loop default_args (Some default_shut_args)
     (Some (at_time 2 30)) [fire_tick, next_tick])) = 1"
proof -
  have a: "at_time 2 30 \<le> at_time 2 35" by (simp add: at_time_def)
  have b: "5 \<le> idle_percent default_shut_args" by (simp add: default_shut_args_def)
  note inst = after_fire_inactive [OF a b inside_default_0235, where call_res = "Inr 0"
      and t = fire_tick and h = 0 and m = 20 and tp = 40 and f = 30 and rc = 0
      and args = default_args and t' = next_tick and h' = 0 and usage' = 5 and m' = 20
      and tp' = 40 and f' = 30]
  have t1: "handle_res fire_tick = Inr 0 \<and> util_res fire_tick = Inr (5, 20) \<and>
      temp_res fire_tick = Inr 40 \<and> fan_res fire_tick = Inr 30 \<and> sleep_res fire_tick = None \<and>
      suspend_res fire_tick = Inr 0 \<and> shut_now fire_tick = at_time 2 35"
    by (simp add: fire_tick_def idle_tick_def fault_tick_def)
  have n: "shut_now next_tick = at_time 2 36" "idle_duration default_shut_args = 1800000000"
    by (simp_all add: next_tick_def idle_tick_def fault_tick_def default_shut_args_def)
  have s: "shut_now next_tick + idle_duration default_shut_args = at_time 3 6"
    by (simp add: n at_time_def)
  have r: "0 \<le> at_time 3 6 \<and> at_time 3 6 \<le> datetime_max"
    by (simp add: at_time_def datetime_max_def us_per_day_def)
  have t2: "handle_res next_tick = Inr 0 \<and> util_res next_tick = Inr (5, 20) \<and>
      temp_res next_tick = Inr 40 \<and> fan_res next_tick = Inr 30 \<and> sleep_res next_tick = None \<and>
      5 \<le> idle_percent default_shut_args \<and>
      inside_window default_shut_args (dt_time (shut_now next_tick)) \<and>
      0 \<le> shut_now next_tick + idle_duration default_shut_args \<and>
      shut_now next_tick + idle_duration default_shut_args \<le> datetime_max"
    using b inside_default_0236 r
    by (simp add: s) (simp add: next_tick_def idle_tick_def fault_tick_def)
  from inst
  have c1: "snd (check_shutdown default_shut_args 5 (Some (at_time 2 30)) (at_time 2 35) (Inr 0))
      = Inr None"
    by simp
  from inst t1
  have c2: "snd (loop_body default_args (Some default_shut_args) (Some (at_time 2 30)) fire_tick)
      = Inr None"
    by blast
  from inst t1 t2 c2
  have c3: "snd (loop_body default_args (Some default_shut_args) None next_tick)
      = Inr (Some (shut_now next_tick + idle_duration default_shut_args))"
    by blast
  from inst t1 t2
  have c4: "shutdown_count (fst (monitor_loop default_args (Some default_shut_args)
      (Some (at_time 2 30)) [fire_tick, next_tick])) = 1"
    by blast
  from a b inside_default_0235 c1 c2 c3 [unfolded s] c4 show ?thesis by blast
qed





















text \<open>
  Runs with the default arguments. With the environment \<open>quiet_env\<close> the run performs
  fifteen events and is then still in the loop; when the first acquisition of the handle
  fails, the run ends with the NVML error after the teardown.
\<close>

lemma startup_default:
  "startup default_args ev =
     ([SetLevel INFO, StreamHandler, Log INFO ''start logging'' [],
       Log DEBUG ''shut args: {0}'' []],
      Inr (default_args, Some default_shut_args))"
proof -
  have "log_file default_args = []" "\<not> verbose default_args"
    by (simp_all add: default_args_def)
  then show ?thesis by (simp add: startup_def parse_args_default)
qed





lemma main_trace_example:
  "main default_args (quiet_env\<lparr>ticks := [fault_tick]\<rparr>) =
     ([SetLevel INFO, StreamHandler, Log INFO ''start logging'' [],
       Log DEBUG ''shut args: {0}'' [],
       Log DEBUG ''initializing nvml'' [], NvmlInit, NvmlDeviceGetCount,
       Log DEBUG ''found %i gpus'' [1], NvmlDeviceGetHandleByIndex 0,
       Log DEBUG ''shutting down nvml'' [], NvmlShutdown],
      Raised (NVMLError 2))"
proof -
  have l: "loop_body default_args (Some default_shut_args) None fault_tick =
      ([NvmlDeviceGetHandleByIndex 0], Inl (NVMLError 2))"
    by (simp add: loop_body_def bind_res_def fault_tick_def default_args_def)
  show ?thesis
    by (simp add: main_def startup_default try_block_def quiet_env_def l finally_clause_def)
qed


text \<open>
  An interrupt that arrives in the \<^verbatim>\<open>finally\<close> clause, before \<^verbatim>\<open>nvmlShutdown\<close> is called,
  ends the run without the teardown.
\<close>

lemma sigint_in_finally_example:
  "process default_args (quiet_env\<lparr>ticks := [fault_tick]\<rparr>) (Some (SIGINT, 9)) =
     ([SetLevel INFO, StreamHandler, Log INFO ''start logging'' [],
       Log DEBUG ''shut args: {0}'' [],
       Log DEBUG ''initializing nvml'' [], NvmlInit, NvmlDeviceGetCount,
       Log DEBUG ''found %i gpus'' [1], NvmlDeviceGetHandleByIndex 0],
      Raised KeyboardInterrupt)"
proof -
  have l: "loop_body default_args (Some default_shut_args) None fault_tick =
      ([NvmlDeviceGetHandleByIndex 0], Inl (NVMLError 2))"
    by (simp add: loop_body_def bind_res_def fault_tick_def default_args_def)
  show ?thesis
    by (simp add: process_def startup_default try_block_def quiet_env_def l finally_clause_def)
qed




end
